theory Spec2Isabelle
  imports Complex_Main "HOL-Library.Char_ord" "HOL-Library.List_Lexorder"
begin

section \<open>Ensembling of VQA model predictions (ensemble.py)\<close>

text \<open>
  A shallow embedding of \<^verbatim>\<open>main\<close> of \<^verbatim>\<open>ensemble.py\<close>. Exceptions are values
  of the type \<open>error\<close>; every fallible step returns \<open>error + 'a\<close>. Python strings are
  \<open>string\<close> (byte lists; non-ASCII text is its UTF-8 encoding, on which the
  lexicographic order of bytes is the order of code points, and splitting at an ASCII
  character and matching an ASCII suffix are the same on bytes as on characters). What
  depends on the Unicode tables of the interpreter is a parameter (\<open>interp\<close> below).
  Python's unbounded integers are \<open>int\<close>. The score type \<open>'a\<close> is left open: it needs an addition, a zero
  and a linear order (floating-point values other than NaN, or exact numbers).
\<close>

subsection \<open>Exceptions\<close>

datatype error =
    UnboundLocalError string
  | OSError string
  | ValueError string
  | AssertionError
  | IndexError
  | RuntimeError string
  | IOError string

subsection \<open>String operations of the Python library\<close>

definition str_endswith :: "string \<Rightarrow> string \<Rightarrow> bool" where
  "str_endswith s suf \<longleftrightarrow>
     length suf \<le> length s \<and> drop (length s - length suf) s = suf"

text \<open>\<^verbatim>\<open>s.split(sep, maxsplit)\<close> for a one-character separator, from the left.\<close>

fun str_splitn :: "char \<Rightarrow> nat \<Rightarrow> string \<Rightarrow> string list" where
  "str_splitn sep 0 s = [s]"
| "str_splitn sep (Suc n) [] = [[]]"
| "str_splitn sep (Suc n) (c # cs) =
     (if c = sep then [] # str_splitn sep n cs
      else (case str_splitn sep (Suc n) cs of
              [] \<Rightarrow> [[c]]
            | f # fs \<Rightarrow> (c # f) # fs))"

text \<open>\<^verbatim>\<open>s.split(sep)\<close>: every occurrence of the separator splits.\<close>

definition str_split :: "char \<Rightarrow> string \<Rightarrow> string list" where
  "str_split sep s = str_splitn sep (length s) s"

text \<open>\<^verbatim>\<open>s.rsplit(sep, maxsplit)\<close>: at most \<open>maxsplit\<close> splits, counted from the right.\<close>

definition str_rsplit :: "char \<Rightarrow> nat \<Rightarrow> string \<Rightarrow> string list" where
  "str_rsplit sep n s = rev (map rev (str_splitn sep n (rev s)))"

text \<open>Decimal text of a natural number, as \<^verbatim>\<open>str(n)\<close> prints it.\<close>

definition digit_char :: "nat \<Rightarrow> char" where
  "digit_char d = char_of (48 + d)"

function str_nat :: "nat \<Rightarrow> string" where
  "str_nat n = (if n < 10 then [digit_char n] else str_nat (n div 10) @ [digit_char (n mod 10)])"
  by pat_completeness auto
termination
  by (relation "measure id") auto

declare str_nat.simps [simp del]

text \<open>
  \<^verbatim>\<open>repr(s)\<close> of a string of ASCII characters: single quotes unless the text has
  a single quote and no double quote; the quote in use and the backslash are escaped, as
  are the control characters and DEL.
\<close>

definition hex_digit :: "nat \<Rightarrow> char" where
  "hex_digit d = (if d < 10 then char_of (48 + d) else char_of (87 + d))"

definition repr_char :: "char \<Rightarrow> char \<Rightarrow> string" where
  "repr_char q c =
     (if c = q \<or> c = CHR 0x5C then [CHR 0x5C, c]
      else if c = CHR 0x0A then [CHR 0x5C, CHR ''n'']
      else if c = CHR 0x0D then [CHR 0x5C, CHR ''r'']
      else if c = CHR 0x09 then [CHR 0x5C, CHR ''t'']
      else if (of_char c :: nat) < 32 \<or> c = CHR 0x7F
        then [CHR 0x5C, CHR ''x'', hex_digit (of_char c div 16), hex_digit (of_char c mod 16)]
      else [c])"

definition py_repr :: "string \<Rightarrow> string" where
  "py_repr s =
     (let q = (if CHR 0x27 \<in> set s \<and> CHR 0x22 \<notin> set s then CHR 0x22 else CHR 0x27)
      in q # concat (map (repr_char q) s) @ [q])"

text \<open>
  What the interpreter does with non-ASCII text comes from its Unicode tables, which
  are not modelled. For a text with a non-ASCII character, two things are parameters:
  the ASCII text that \<^verbatim>\<open>int\<close> parses in its place (every Unicode space replaced by
  a space and every decimal digit of any script by the ASCII digit), and the first 200
  characters of its \<^verbatim>\<open>repr\<close>. The limit on the number of digits that \<^verbatim>\<open>int\<close>
  converts (\<^verbatim>\<open>sys.get_int_max_str_digits()\<close>; 0 when there is none) is a parameter
  too.
\<close>

record interp =
  int_transform :: "string \<Rightarrow> string"
  repr_cut_unicode :: "string \<Rightarrow> string"
  int_max_str_digits :: nat

definition is_ascii :: "string \<Rightarrow> bool" where
  "is_ascii s = list_all (\<lambda>c. (of_char c :: nat) < 128) s"

text \<open>The format \<^verbatim>\<open>%.200R\<close> of the error message: the \<^verbatim>\<open>repr\<close>, cut at 200 characters.\<close>

definition repr_cut :: "interp \<Rightarrow> string \<Rightarrow> string" where
  "repr_cut ip s = (if is_ascii s then take 200 (py_repr s) else repr_cut_unicode ip s)"

text \<open>
  \<^verbatim>\<open>int(text)\<close>, base 10, as \<^verbatim>\<open>PyLong_FromString\<close> reads the ASCII text: leading
  whitespace (tab to carriage return, and the space) is skipped, one sign is allowed,
  the text may not go on with an underscore; then digits and underscores are scanned,
  no two underscores in a row and none at the end; more digits than the limit (which
  is looked at above 640 digits only) are refused with a message of their own; at
  least one digit is needed, and only whitespace may follow.
\<close>

definition int_space :: "char \<Rightarrow> bool" where
  "int_space c \<longleftrightarrow> (let n = (of_char c :: nat) in (9 \<le> n \<and> n \<le> 13) \<or> n = 32)"

definition digit_of :: "char \<Rightarrow> int option" where
  "digit_of c =
     (let n = (of_char c :: nat) in if 48 \<le> n \<and> n \<le> 57 then Some (int n - 48) else None)"

fun scan_digits :: "int \<Rightarrow> nat \<Rightarrow> char \<Rightarrow> string \<Rightarrow> (int \<times> nat \<times> string) option" where
  "scan_digits acc digits prev [] = (if prev = CHR ''_'' then None else Some (acc, digits, []))"
| "scan_digits acc digits prev (c # cs) =
     (if c = CHR ''_'' then (if prev = CHR ''_'' then None else scan_digits acc digits c cs)
      else (case digit_of c of
              None \<Rightarrow> (if prev = CHR ''_'' then None else Some (acc, digits, c # cs))
            | Some d \<Rightarrow> scan_digits (10 * acc + d) (Suc digits) c cs))"

definition invalid_literal :: "interp \<Rightarrow> string \<Rightarrow> string" where
  "invalid_literal ip s = ''invalid literal for int() with base 10: '' @ repr_cut ip s"

definition exceeds_limit :: "nat \<Rightarrow> nat \<Rightarrow> string" where
  "exceeds_limit cap digits =
     ''Exceeds the limit ('' @ str_nat cap @ '' digits) for integer string conversion: value has ''
       @ str_nat digits @ '' digits; use sys.set_int_max_str_digits() to increase the limit''"

definition py_int :: "interp \<Rightarrow> string \<Rightarrow> error + int" where
  "py_int ip s =
     (let t = dropWhile int_space (if is_ascii s then s else int_transform ip s);
          negative = (t \<noteq> [] \<and> hd t = CHR ''-'');
          u = (if t \<noteq> [] \<and> (hd t = CHR ''+'' \<or> hd t = CHR ''-'') then tl t else t);
          invalid = Inl (ValueError (invalid_literal ip s))
      in if u \<noteq> [] \<and> hd u = CHR ''_'' then invalid
         else (case scan_digits 0 0 (CHR 0x00) u of
                 None \<Rightarrow> invalid
               | Some (v, digits, rest) \<Rightarrow>
                   if 640 < digits \<and> 0 < int_max_str_digits ip \<and> int_max_str_digits ip < digits
                   then Inl (ValueError (exceeds_limit (int_max_str_digits ip) digits))
                   else if digits = 0 \<or> dropWhile int_space rest \<noteq> [] then invalid
                   else Inr (if negative then - v else v)))"

text \<open>\<^verbatim>\<open>os.path.join(a, b)\<close> on a POSIX system.\<close>

definition path_join :: "string \<Rightarrow> string \<Rightarrow> string" where
  "path_join a b =
     (if b \<noteq> [] \<and> hd b = CHR ''/'' then b
      else if a = [] \<or> last a = CHR ''/'' then a @ b
      else a @ ''/'' @ b)"

subsection \<open>The checkpoint catalog (lines 34 to 45)\<close>

text \<open>An element of \<^verbatim>\<open>model_info\<close>: group (family), model name, accuracy, path.\<close>

record checkpoint =
  model_group_name :: string
  model_name :: string
  model_acc :: int
  cp_path :: string

text \<open>
  The message of the \<^verbatim>\<open>ValueError\<close> that the unpacking
  \<^verbatim>\<open>a, b, acc_text, *_ = ...\<close> raises on a list of \<open>n\<close> fields, fewer than three.
\<close>

definition unpack_message :: "nat \<Rightarrow> string" where
  "unpack_message n = ''not enough values to unpack (expected at least 3, got '' @ str_nat n @ '')''"

text \<open>The fields of a name: \<^verbatim>\<open>cp_file.rsplit('.', 2)[0].split('-')\<close> (lines 37 and 39).\<close>

definition name_fields :: "string \<Rightarrow> string list" where
  "name_fields cp_file = str_split CHR ''-'' (hd (str_rsplit CHR ''.'' 2 cp_file))"

text \<open>
  The body of the loop over \<^verbatim>\<open>model_files\<close>: strip the two extension parts, split
  at the dashes, unpack three fields (more are ignored), read the accuracy.
\<close>

definition parse_checkpoint :: "interp \<Rightarrow> string \<Rightarrow> string \<Rightarrow> error + checkpoint" where
  "parse_checkpoint ip model_dir cp_file =
     (case str_rsplit CHR ''.'' 2 cp_file of
        [] \<Rightarrow> Inl IndexError
      | file_name # _ \<Rightarrow>
          (case str_split CHR ''-'' file_name of
             g # m # acc_text # _ \<Rightarrow>
               (case py_int ip acc_text of
                  Inl e \<Rightarrow> Inl e
                | Inr a \<Rightarrow>
                    Inr \<lparr>model_group_name = g, model_name = m, model_acc = a,
                         cp_path = path_join model_dir cp_file\<rparr>)
           | parts \<Rightarrow> Inl (ValueError (unpack_message (length parts)))))"

fun parse_all :: "interp \<Rightarrow> string \<Rightarrow> string list \<Rightarrow> error + checkpoint list" where
  "parse_all ip model_dir [] = Inr []"
| "parse_all ip model_dir (cp_file # rest) =
     (case parse_checkpoint ip model_dir cp_file of
        Inl e \<Rightarrow> Inl e
      | Inr c \<Rightarrow>
          (case parse_all ip model_dir rest of
             Inl e \<Rightarrow> Inl e
           | Inr cs \<Rightarrow> Inr (c # cs)))"

definition model_files_of :: "string list \<Rightarrow> string list" where
  "model_files_of files = filter (\<lambda>f. str_endswith f ''.pth.tar'') files"

text \<open>
  \<^verbatim>\<open>sorted(model_info, key=itemgetter(0))\<close> is a stable sort on the group name, as
  \<open>sort_key\<close> is; then the assertion that more than one model is left.
\<close>

definition build_catalog :: "interp \<Rightarrow> string \<Rightarrow> string list \<Rightarrow> error + checkpoint list" where
  "build_catalog ip model_dir files =
     (case parse_all ip model_dir (model_files_of files) of
        Inl e \<Rightarrow> Inl e
      | Inr model_info \<Rightarrow>
          (let sorted_info = sort_key model_group_name model_info
           in if length sorted_info > 1 then Inr sorted_info else Inl AssertionError))"

subsection \<open>External collaborators\<close>

text \<open>
  Modelled from the spec: \<^verbatim>\<open>VQADataset\<close> (dataset.py is not among the sources). The
  SampleIndex is the fixed, ordered sequence of question identifiers of the evaluation
  set, one per sample, so \<^verbatim>\<open>len(dataset)\<close> is the length of \<open>que_id\<close>; the
  AnswerVocabulary \<^verbatim>\<open>codebook['itoa']\<close> is the list \<open>itoa\<close>.
\<close>

record dataset =
  que_id :: "int list"
  itoa :: "string list"

text \<open>
  A loaded network, as the prediction loop sees it: the batch (the positions of its
  samples in the dataset, after \<^verbatim>\<open>reload_obj\<close>) is mapped to a score matrix, given by
  its rows.
\<close>

type_synonym 'a scorer = "nat list \<Rightarrow> 'a list list"

record cli_args =
  model_dir :: string
  bs :: int
  cfg_file :: "string option"
  set_cfgs :: "string list option"

text \<open>
  What happens to \<^verbatim>\<open>json.dump(result, open(fname, 'w'))\<close>. The file may fail to
  open. A write may fail while \<^verbatim>\<open>json.dump\<close> runs, after \<open>k\<close> characters have reached
  the file: the exception propagates. Or the text is still in the buffer of the file
  object when \<^verbatim>\<open>json.dump\<close> returns: the code never closes or flushes the file, so
  the buffer is written when the object is finalised, and a failure at that point,
  after \<open>k\<close> characters, is reported on the error stream and discarded.
\<close>

datatype outcome = Succeeds | OpenFails | WriteFails nat | FlushFails nat

text \<open>
  The environment of a run: the dataset constructor, the construction and loading of a
  model from a catalog entry (\<^verbatim>\<open>import_module\<close>, \<^verbatim>\<open>torch.load\<close>,
  \<^verbatim>\<open>load_state_dict\<close>), the text \<^verbatim>\<open>json.dump\<close> produces, the fate of each
  write, the configuration loaders, the command line as \<^verbatim>\<open>parse_args\<close> reads it, and
  the parameters of the interpreter.
\<close>

record 'a env =
  interpreter :: interp
  vqa_dataset :: "string \<Rightarrow> dataset"
  load_model :: "checkpoint \<Rightarrow> error + 'a scorer"
  json_dumps :: "(int \<times> string) list \<Rightarrow> string"
  io_outcome :: "string \<Rightarrow> outcome"
  cfg_from_file :: "string \<Rightarrow> error option"
  cfg_from_list :: "string list \<Rightarrow> error option"
  parse_args :: "error + cli_args"

text \<open>
  The world a run acts on: directory listings, the text of the files, and the
  checkpoints whose inference pass was started, in order.
\<close>

record world =
  listdir :: "string \<Rightarrow> error + string list"
  files :: "string \<rightharpoonup> string"
  started :: "string list"

subsection \<open>Library operations on scores and tallies\<close>

text \<open>
  \<^verbatim>\<open>torch.max(t, dim=1)\<close> on one row: a scan that keeps the first maximal value, as
  PyTorch documents it ("the indices of the first maximal value are returned"). A row
  with no element is an error.
\<close>

fun max_scan :: "'a::linorder \<Rightarrow> nat \<Rightarrow> nat \<Rightarrow> 'a list \<Rightarrow> nat" where
  "max_scan best best_i i [] = best_i"
| "max_scan best best_i i (x # xs) =
     (if best < x then max_scan x i (Suc i) xs else max_scan best best_i (Suc i) xs)"

definition torch_max :: "'a::linorder list \<Rightarrow> error + nat" where
  "torch_max row =
     (case row of
        [] \<Rightarrow> Inl (RuntimeError ''cannot perform reduction function max on tensor with no elements'')
      | x # xs \<Rightarrow> Inr (max_scan x 0 1 xs))"

fun map_err :: "('b \<Rightarrow> error + 'c) \<Rightarrow> 'b list \<Rightarrow> error + 'c list" where
  "map_err f [] = Inr []"
| "map_err f (x # xs) =
     (case f x of
        Inl e \<Rightarrow> Inl e
      | Inr y \<Rightarrow> (case map_err f xs of Inl e \<Rightarrow> Inl e | Inr ys \<Rightarrow> Inr (y # ys)))"

text \<open>
  A Python \<^verbatim>\<open>dict\<close> from answers to weights, as the list of its items in insertion
  order: assigning to a key that is present keeps its place, a new key goes last.
\<close>

type_synonym tally = "(string \<times> int) list"

definition dict_get :: "tally \<Rightarrow> string \<Rightarrow> int \<Rightarrow> int" where
  "dict_get d k dflt = (case map_of d k of None \<Rightarrow> dflt | Some v \<Rightarrow> v)"

fun dict_set :: "tally \<Rightarrow> string \<Rightarrow> int \<Rightarrow> tally" where
  "dict_set [] k v = [(k, v)]"
| "dict_set ((k', v') # d) k v =
     (if k' = k then (k, v) # d else (k', v') # dict_set d k v)"

text \<open>
  \<^verbatim>\<open>Counter(v).most_common(1)[0][0]\<close>: \<^verbatim>\<open>most_common(1)\<close> is
  \<^verbatim>\<open>max(items, key=itemgetter(1))\<close>, which keeps the first item of greatest count in
  iteration order; on an empty tally the index \<^verbatim>\<open>[0]\<close> raises.
\<close>

fun max_item :: "string \<times> int \<Rightarrow> tally \<Rightarrow> string \<times> int" where
  "max_item best [] = best"
| "max_item best (kv # rest) =
     (if snd best < snd kv then max_item kv rest else max_item best rest)"

definition most_common :: "tally \<Rightarrow> error + string" where
  "most_common d = (case d of [] \<Rightarrow> Inl IndexError | kv # rest \<Rightarrow> Inr (fst (max_item kv rest)))"

subsection \<open>The prediction loop (lines 50 to 87)\<close>

record 'a buffers =
  conf_buff :: "'a list list"
  vote_buff :: "tally list"
  start :: nat

text \<open>
  \<^verbatim>\<open>conf_buff[start:start+bs] += score\<close> with \<^verbatim>\<open>bs = score.size(0)\<close>: the slice
  has the rows that exist from \<open>start\<close> on, at most \<open>bs\<close>; numpy adds in place when the
  score broadcasts to the slice (as many rows or one row, as many columns as the
  vocabulary or one column) and raises otherwise.
\<close>

definition bcast_row :: "nat \<Rightarrow> 'a list \<Rightarrow> 'a list" where
  "bcast_row v row = (if length row = v then row else replicate v (row ! 0))"

definition iadd_slice ::
  "'a::plus list list \<Rightarrow> nat \<Rightarrow> nat \<Rightarrow> 'a list list \<Rightarrow> error + 'a list list" where
  "iadd_slice conf v st_pos score =
     (let r = length score; k = min r (length conf - st_pos) in
      if (r = k \<or> r = 1) \<and> list_all (\<lambda>row. length row = v \<or> length row = 1) score
      then Inr (map (\<lambda>(i, row).
                      if st_pos \<le> i \<and> i < st_pos + k
                      then map2 (+) row (bcast_row v (score ! (if r = 1 then 0 else i - st_pos)))
                      else row)
                    (enumerate 0 conf))
      else Inl (ValueError ''operands could not be broadcast together''))"

text \<open>
  Lines 83 to 85 for one sample: the weight of the answer in the sample's tally (0
  when it has none yet) is raised by the accuracy of the model.
\<close>

definition cast_vote :: "tally \<Rightarrow> string \<Rightarrow> int \<Rightarrow> tally" where
  "cast_vote d ans acc = (let ans_score = acc + dict_get d ans 0 in dict_set d ans ans_score)"

text \<open>The loop of lines 82 to 85 over the top answers of one batch.\<close>

fun vote_rows ::
  "string list \<Rightarrow> int \<Rightarrow> tally list \<Rightarrow> nat \<Rightarrow> nat list \<Rightarrow> error + tally list" where
  "vote_rows ans_list acc votes pos [] = Inr votes"
| "vote_rows ans_list acc votes pos (ans_id # rest) =
     (if ans_id < length ans_list \<and> pos < length votes then
        vote_rows ans_list acc
          (votes[pos := cast_vote (votes ! pos) (ans_list ! ans_id) acc]) (Suc pos) rest
      else Inl IndexError)"

text \<open>The body of the loop over the batches (lines 76 to 87), given the score.\<close>

definition accumulate ::
  "string list \<Rightarrow> int \<Rightarrow> 'a::{plus,linorder} buffers \<Rightarrow> 'a list list \<Rightarrow> error + 'a buffers" where
  "accumulate ans_list acc st score =
     (case iadd_slice (conf_buff st) (length ans_list) (start st) score of
        Inl e \<Rightarrow> Inl e
      | Inr conf' \<Rightarrow>
          (case map_err torch_max score of
             Inl e \<Rightarrow> Inl e
           | Inr ans_ids \<Rightarrow>
               (case vote_rows ans_list acc (vote_buff st) (start st) ans_ids of
                  Inl e \<Rightarrow> Inl e
                | Inr votes' \<Rightarrow>
                    Inr \<lparr>conf_buff = conf', vote_buff = votes',
                         start = start st + length score\<rparr>)))"

fun run_batches ::
  "string list \<Rightarrow> int \<Rightarrow> 'a::{plus,linorder} scorer \<Rightarrow> nat list list \<Rightarrow> 'a buffers
     \<Rightarrow> error + 'a buffers" where
  "run_batches ans_list acc model [] st = Inr st"
| "run_batches ans_list acc model (b # rest) st =
     (case accumulate ans_list acc st (model b) of
        Inl e \<Rightarrow> Inl e
      | Inr st' \<Rightarrow> run_batches ans_list acc model rest st')"

text \<open>
  The batches of \<^verbatim>\<open>DataLoader(dataset, batch_size=n, shuffle=False)\<close>: consecutive
  runs of \<open>n\<close> samples in order, the last one possibly shorter.
\<close>

function batches :: "nat \<Rightarrow> 'b list \<Rightarrow> 'b list list" where
  "batches n xs = (if n = 0 \<or> xs = [] then [] else take n xs # batches n (drop n xs))"
  by pat_completeness auto
termination
  by (relation "measure (\<lambda>(n, xs). length xs)") auto

declare batches.simps [simp del]

text \<open>
  One catalog entry (lines 53 to 87): the loader is built (a batch size that is not
  positive is refused), the model is built and loaded, \<^verbatim>\<open>start\<close> is set to 0 and the
  batches are run.
\<close>

definition predict_model ::
  "'a::{plus,linorder} env \<Rightarrow> int \<Rightarrow> dataset \<Rightarrow> 'a buffers \<Rightarrow> checkpoint \<Rightarrow> error + 'a buffers" where
  "predict_model env batch_size ds st cp =
     (if batch_size \<le> 0 then Inl (ValueError ''batch_size should be a positive integer value'')
      else (case load_model env cp of
              Inl e \<Rightarrow> Inl e
            | Inr model \<Rightarrow>
                run_batches (itoa ds) (model_acc cp) model
                  (batches (nat batch_size) [0..<length (que_id ds)])
                  (st\<lparr>start := 0\<rparr>)))"

text \<open>
  The rows of scores one entry's pass sees, in the order of the batches: with a model
  that scores every sample of a batch, row \<open>p\<close> belongs to sample \<open>p\<close>.
\<close>

definition pass_scores :: "'a scorer \<Rightarrow> int \<Rightarrow> dataset \<Rightarrow> 'a list list" where
  "pass_scores model batch_size ds =
     concat (map model (batches (nat batch_size) [0..<length (que_id ds)]))"

text \<open>The loop over \<^verbatim>\<open>model_info\<close>, with the log of the entries started.\<close>

fun predict_all ::
  "'a::{plus,linorder} env \<Rightarrow> int \<Rightarrow> dataset \<Rightarrow> checkpoint list \<Rightarrow> 'a buffers \<Rightarrow> string list
     \<Rightarrow> (error + 'a buffers) \<times> string list" where
  "predict_all env batch_size ds [] st journal = (Inr st, journal)"
| "predict_all env batch_size ds (cp # rest) st journal =
     (case predict_model env batch_size ds st cp of
        Inl e \<Rightarrow> (Inl e, journal @ [cp_path cp])
      | Inr st' \<Rightarrow> predict_all env batch_size ds rest st' (journal @ [cp_path cp]))"

subsection \<open>The results (lines 89 to 97)\<close>

definition item_at :: "'b list \<Rightarrow> nat \<Rightarrow> error + 'b" where
  "item_at xs i = (if i < length xs then Inr (xs ! i) else Inl IndexError)"

text \<open>
  The confidence result: the row-wise maximum of \<^verbatim>\<open>conf_buff\<close> (a tensor with no
  column has no maximum), then one object for each pair of \<^verbatim>\<open>zip(que_ids, ans_ids)\<close>.
  An object \<^verbatim>\<open>{'question_id': q, 'answer': a}\<close> is the pair \<open>(q, a)\<close>.
\<close>

definition conf_result_of :: "dataset \<Rightarrow> 'a::linorder list list \<Rightarrow> error + (int \<times> string) list" where
  "conf_result_of ds conf =
     (if itoa ds = []
      then Inl (RuntimeError ''cannot perform reduction function max on tensor with no elements'')
      else (case map_err torch_max conf of
              Inl e \<Rightarrow> Inl e
            | Inr ans_ids \<Rightarrow>
                map_err (\<lambda>(q, ans_id).
                           case item_at (itoa ds) ans_id of
                             Inl e \<Rightarrow> Inl e
                           | Inr a \<Rightarrow> Inr (q, a))
                        (zip (que_id ds) ans_ids)))"

definition vote_result_of :: "dataset \<Rightarrow> tally list \<Rightarrow> error + (int \<times> string) list" where
  "vote_result_of ds votes =
     (case map_err most_common votes of
        Inl e \<Rightarrow> Inl e
      | Inr answers \<Rightarrow> Inr (zip (que_id ds) answers))"

definition finalize ::
  "dataset \<Rightarrow> 'a::linorder buffers \<Rightarrow> error + ((int \<times> string) list \<times> (int \<times> string) list)" where
  "finalize ds st =
     (case conf_result_of ds (conf_buff st) of
        Inl e \<Rightarrow> Inl e
      | Inr conf_result \<Rightarrow>
          (case vote_result_of ds (vote_buff st) of
             Inl e \<Rightarrow> Inl e
           | Inr vote_result \<Rightarrow> Inr (conf_result, vote_result)))"

subsection \<open>Writing the results (lines 99 to 102)\<close>

text \<open>
  \<^verbatim>\<open>json.dump(result, open(fname, 'w'))\<close>: opening for writing creates or truncates
  the file of that name; the text is then written into it. A write that fails after
  some characters leaves those characters in the file, whether the failure is raised
  or discarded.
\<close>

definition dump_file ::
  "outcome \<Rightarrow> string \<Rightarrow> string \<Rightarrow> (string \<rightharpoonup> string) \<Rightarrow> (error + unit) \<times> (string \<rightharpoonup> string)" where
  "dump_file oc fname content fs =
     (case oc of
        OpenFails \<Rightarrow> (Inl (OSError fname), fs)
      | WriteFails k \<Rightarrow> (Inl (IOError fname), fs(fname \<mapsto> take k content))
      | FlushFails k \<Rightarrow> (Inr (), fs(fname \<mapsto> take k content))
      | Succeeds \<Rightarrow> (Inr (), fs(fname \<mapsto> content)))"

definition write_results ::
  "'a env \<Rightarrow> string \<Rightarrow> (int \<times> string) list \<Rightarrow> (int \<times> string) list \<Rightarrow> (string \<rightharpoonup> string)
     \<Rightarrow> (error + unit) \<times> (string \<rightharpoonup> string)" where
  "write_results env dir conf_result vote_result fs =
     (let conf_name = path_join dir ''result-conf.json'';
          vote_name = path_join dir ''result-vote.json''
      in case dump_file (io_outcome env conf_name) conf_name (json_dumps env conf_result) fs of
           (Inl e, fs') \<Rightarrow> (Inl e, fs')
         | (Inr u, fs') \<Rightarrow>
             dump_file (io_outcome env vote_name) vote_name (json_dumps env vote_result) fs')"

subsection \<open>The main function\<close>

definition initial_buffers :: "dataset \<Rightarrow> 'a::zero buffers" where
  "initial_buffers ds =
     \<lparr>conf_buff = replicate (length (que_id ds)) (replicate (length (itoa ds)) 0),
      vote_buff = replicate (length (que_id ds)) [],
      start = 0\<rparr>"

text \<open>
  Lines 34 to 97, once \<^verbatim>\<open>args\<close> holds the parsed command line: the catalog, the
  dataset of the first entry, the prediction loop and the two result lists. The second
  component is the log of the inference passes started.
\<close>

definition compute_results ::
  "'a::{plus,zero,linorder} env \<Rightarrow> cli_args \<Rightarrow> world
     \<Rightarrow> (error + ((int \<times> string) list \<times> (int \<times> string) list)) \<times> string list" where
  "compute_results env args w =
     (case listdir w (model_dir args) of
        Inl e \<Rightarrow> (Inl e, started w)
      | Inr names \<Rightarrow>
          (case build_catalog (interpreter env) (model_dir args) names of
             Inl e \<Rightarrow> (Inl e, started w)
           | Inr model_info \<Rightarrow>
               (case model_info of
                  [] \<Rightarrow> (Inl IndexError, started w)
                | first # _ \<Rightarrow>
                    (let ds = vqa_dataset env (model_group_name first) in
                     case predict_all env (bs args) ds model_info (initial_buffers ds) (started w) of
                       (Inl e, journal) \<Rightarrow> (Inl e, journal)
                     | (Inr st, journal) \<Rightarrow>
                         (case finalize ds st of
                            Inl e \<Rightarrow> (Inl e, journal)
                          | Inr results \<Rightarrow> (Inr results, journal))))))"

text \<open>Lines 34 to 102: the results are computed, then written (lines 99 to 102).\<close>

definition main_body ::
  "'a::{plus,zero,linorder} env \<Rightarrow> cli_args \<Rightarrow> world \<Rightarrow> (error + unit) \<times> world" where
  "main_body env args w =
     (case compute_results env args w of
        (Inl e, journal) \<Rightarrow> (Inl e, w\<lparr>started := journal\<rparr>)
      | (Inr (conf_result, vote_result), journal) \<Rightarrow>
          (case write_results env (model_dir args) conf_result vote_result (files w) of
             (r, fs) \<Rightarrow> (r, w\<lparr>started := journal, files := fs\<rparr>)))"

text \<open>
  The frame of \<^verbatim>\<open>main\<close>. Its one local variable that matters is \<^verbatim>\<open>args\<close>: the
  function assigns to it (line 33), so the name is local in the whole body, and the
  slot is empty until that assignment runs. Reading an empty slot raises.
\<close>

record frame =
  args_slot :: "cli_args option"

definition load_fast :: "'v option \<Rightarrow> string \<Rightarrow> error + 'v" where
  "load_fast slot name =
     (case slot of
        None \<Rightarrow> Inl (UnboundLocalError name)
      | Some v \<Rightarrow> Inr v)"

definition main :: "'a::{plus,zero,linorder} env \<Rightarrow> world \<Rightarrow> (error + unit) \<times> world" where
  "main env w =
     (let fr = \<lparr>args_slot = None\<rparr> in
      case load_fast (args_slot fr) ''args'' of
        Inl e \<Rightarrow> (Inl e, w)
      | Inr a \<Rightarrow>
          (case (case cfg_file a of None \<Rightarrow> None | Some f \<Rightarrow> cfg_from_file env f) of
             Some e \<Rightarrow> (Inl e, w)
           | None \<Rightarrow>
               (case (case set_cfgs a of None \<Rightarrow> None | Some l \<Rightarrow> cfg_from_list env l) of
                  Some e \<Rightarrow> (Inl e, w)
                | None \<Rightarrow>
                    (case parse_args env of
                       Inl e \<Rightarrow> (Inl e, w)
                     | Inr parsed \<Rightarrow>
                         (let fr' = fr\<lparr>args_slot := Some parsed\<rparr> in
                          case load_fast (args_slot fr') ''args'' of
                            Inl e \<Rightarrow> (Inl e, w)
                          | Inr a' \<Rightarrow> main_body env a' w)))))"

subsection \<open>Scores in double precision\<close>

text \<open>
  \<^verbatim>\<open>conf_buff\<close> is a numpy array of 64-bit floating-point numbers (\<^verbatim>\<open>np.zeros\<close>), and
  \<^verbatim>\<open>+=\<close> on it rounds each sum to the nearest number with a significand of 53 bits,
  ties to the even significand (IEEE 754 binary64), with the coarser fixed spacing of
  the subnormal numbers below $2^{-1022}$. A finite double is given by its value;
  infinities and NaN are not represented.
\<close>

datatype f64 = F64 rat

fun f64_val :: "f64 \<Rightarrow> rat" where
  "f64_val (F64 x) = x"

function bit_length :: "int \<Rightarrow> int" where
  "bit_length n = (if n \<le> 0 then 0 else 1 + bit_length (n div 2))"
  by pat_completeness auto
termination
  by (relation "measure nat") auto

declare bit_length.simps [simp del]

definition pow2 :: "int \<Rightarrow> rat" where
  "pow2 e = (if 0 \<le> e then 2 ^ nat e else 1 / 2 ^ nat (- e))"

text \<open>The exponent of a positive rational: the greatest \<open>e\<close> with \<open>2^e \<le> x\<close>.\<close>

definition exponent_of :: "rat \<Rightarrow> int" where
  "exponent_of x =
     (let (p, q) = quotient_of x;
          e = bit_length p - bit_length q
      in if pow2 e \<le> x then e else e - 1)"

definition round_half_even :: "rat \<Rightarrow> int" where
  "round_half_even x =
     (let n = \<lfloor>x\<rfloor>; d = x - of_int n
      in if d < 1 / 2 then n
         else if 1 / 2 < d then n + 1
         else if even n then n else n + 1)"

definition f64_round :: "rat \<Rightarrow> rat" where
  "f64_round x =
     (if x = 0 then 0
      else (let e = max (exponent_of \<bar>x\<bar>) (- 1022);
                ulp = pow2 (e - 52)
            in sgn x * of_int (round_half_even (\<bar>x\<bar> / ulp)) * ulp))"

instantiation f64 :: "{plus,zero,linorder}"
begin

definition zero_f64_def: "0 = F64 0"

definition plus_f64_def: "a + b = F64 (f64_round (f64_val a + f64_val b))"

definition less_eq_f64_def: "a \<le> b \<longleftrightarrow> f64_val a \<le> f64_val b"

definition less_f64_def: "a < b \<longleftrightarrow> f64_val a < f64_val b"

instance
proof
  fix x y z :: f64
  show "(x < y) = (x \<le> y \<and> \<not> y \<le> x)"
    by (auto simp: less_f64_def less_eq_f64_def)
  show "x \<le> x"
    by (simp add: less_eq_f64_def)
  show "x \<le> y \<Longrightarrow> y \<le> z \<Longrightarrow> x \<le> z"
    by (simp add: less_eq_f64_def)
  show "x \<le> y \<Longrightarrow> y \<le> x \<Longrightarrow> x = y"
    by (cases x; cases y) (simp add: less_eq_f64_def)
  show "x \<le> y \<or> y \<le> x"
    by (auto simp: less_eq_f64_def)
qed

end

subsection \<open>Text of the results and of error messages\<close>

text \<open>\<^verbatim>\<open>needle in hay\<close> for strings.\<close>

definition str_contains :: "string \<Rightarrow> string \<Rightarrow> bool" where
  "str_contains hay needle \<longleftrightarrow>
     list_ex (\<lambda>i. take (length needle) (drop i hay) = needle) [0..<Suc (length hay)]"

definition str_int :: "int \<Rightarrow> string" where
  "str_int i = (if i < 0 then CHR ''-'' # str_nat (nat (- i)) else str_nat (nat i))"

text \<open>
  The text \<^verbatim>\<open>json.dump\<close> writes for a list of result objects whose answers are ASCII
  text: the items separated by a comma and a space, the keys in insertion order,
  strings in double quotes with the quote, the backslash, the control characters and
  DEL escaped.
\<close>

definition json_char :: "char \<Rightarrow> string" where
  "json_char c =
     (if c = CHR 0x22 \<or> c = CHR 0x5C then [CHR 0x5C, c]
      else if c = CHR 0x0A then [CHR 0x5C, CHR ''n'']
      else if c = CHR 0x0D then [CHR 0x5C, CHR ''r'']
      else if c = CHR 0x09 then [CHR 0x5C, CHR ''t'']
      else if c = CHR 0x08 then [CHR 0x5C, CHR ''b'']
      else if c = CHR 0x0C then [CHR 0x5C, CHR ''f'']
      else if (of_char c :: nat) < 32 \<or> c = CHR 0x7F
        then [CHR 0x5C, CHR ''u'', CHR ''0'', CHR ''0'',
              hex_digit (of_char c div 16), hex_digit (of_char c mod 16)]
      else [c])"

definition json_string :: "string \<Rightarrow> string" where
  "json_string s = CHR 0x22 # concat (map json_char s) @ [CHR 0x22]"

definition json_object :: "int \<times> string \<Rightarrow> string" where
  "json_object r =
     [CHR 0x7B] @ json_string ''question_id'' @ '': '' @ str_int (fst r) @ '', ''
       @ json_string ''answer'' @ '': '' @ json_string (snd r) @ [CHR 0x7D]"

fun join_items :: "string list \<Rightarrow> string" where
  "join_items [] = []"
| "join_items [x] = x"
| "join_items (x # y # rest) = x @ '', '' @ join_items (y # rest)"

definition json_dumps_ascii :: "(int \<times> string) list \<Rightarrow> string" where
  "json_dumps_ascii rs = ''['' @ join_items (map json_object rs) @ '']''"

subsection \<open>Example runs\<close>

text \<open>
  The scenario of the specification: the vocabulary yes, no, two; one sample with
  question identifier 1; model A of accuracy 80 scores it 0.1, 0.7, 0.2 and model B of
  accuracy 60 scores it 0.6, 0.3, 0.1. The scores are exact rationals here.
\<close>

definition scenario_dataset :: dataset where
  "scenario_dataset = \<lparr>que_id = [1], itoa = [''yes'', ''no'', ''two'']\<rparr>"

definition scenario_scorer :: "checkpoint \<Rightarrow> rat scorer" where
  "scenario_scorer cp =
     (\<lambda>b. map (\<lambda>i. if model_name cp = ''A'' then [1 / 10, 7 / 10, 2 / 10]
                     else [6 / 10, 3 / 10, 1 / 10]) b)"

definition scenario_interp :: interp where
  "scenario_interp =
     \<lparr>int_transform = (\<lambda>s. s), repr_cut_unicode = (\<lambda>s. s), int_max_str_digits = 4300\<rparr>"

definition scenario_env :: "outcome \<Rightarrow> rat env" where
  "scenario_env oc =
     \<lparr>interpreter = scenario_interp,
      vqa_dataset = (\<lambda>g. scenario_dataset),
      load_model = (\<lambda>cp. Inr (scenario_scorer cp)),
      json_dumps = json_dumps_ascii,
      io_outcome = (\<lambda>fname. oc),
      cfg_from_file = (\<lambda>f. None),
      cfg_from_list = (\<lambda>l. None),
      parse_args = Inr \<lparr>model_dir = ''run'', bs = 128, cfg_file = None, set_cfgs = None\<rparr>\<rparr>"

definition scenario_args :: cli_args where
  "scenario_args = \<lparr>model_dir = ''run'', bs = 128, cfg_file = None, set_cfgs = None\<rparr>"

definition world_with :: "string list \<Rightarrow> world" where
  "world_with names =
     \<lparr>listdir = (\<lambda>d. if d = ''run'' then Inr names else Inl (OSError d)),
      files = Map.empty,
      started = []\<rparr>"

definition checkpoint_A :: checkpoint where
  "checkpoint_A = \<lparr>model_group_name = ''vqa'', model_name = ''A'', model_acc = 80,
                    cp_path = ''run/vqa-A-80.pth.tar''\<rparr>"

definition checkpoint_B :: checkpoint where
  "checkpoint_B = \<lparr>model_group_name = ''vqa'', model_name = ''B'', model_acc = 60,
                    cp_path = ''run/vqa-B-60.pth.tar''\<rparr>"

definition scenario_world :: world where
  "scenario_world = world_with [''vqa-A-80.pth.tar'', ''vqa-B-60.pth.tar'']"

section \<open>Properties\<close>

subsection \<open>Strings and the catalog\<close>

lemma str_splitn_nonempty: "str_splitn sep n s \<noteq> []"
  by (induction sep n s rule: str_splitn.induct) (auto split: list.splits)

lemma str_rsplit_nonempty: "str_rsplit sep n s \<noteq> []"
  by (simp add: str_rsplit_def str_splitn_nonempty)

lemma str_contains_set: "str_contains hay needle \<Longrightarrow> set needle \<subseteq> set hay"
proof -
  assume "str_contains hay needle"
  then obtain i where "take (length needle) (drop i hay) = needle"
    by (auto simp: str_contains_def list_ex_iff)
  then have "set needle \<subseteq> set (drop i hay)"
    by (metis set_take_subset)
  then show ?thesis
    using set_drop_subset [of i hay] by blast
qed

lemma digit_char_code: "k < 10 \<Longrightarrow> (of_char (digit_char k) :: nat) = 48 + k"
proof -
  assume k: "k < 10"
  have "(of_char (digit_char k) :: nat) = (48 + k) mod 256"
    unfolding digit_char_def by (rule of_char_of)
  also have "\<dots> = 48 + k" using k by (intro mod_less) linarith
  finally show ?thesis .
qed

lemma hex_digit_code:
  "d < 16 \<Longrightarrow> (of_char (hex_digit d) :: nat) = (if d < 10 then 48 + d else 87 + d)"
proof -
  assume d: "d < 16"
  show ?thesis
  proof (cases "d < 10")
    case True
    have "(of_char (hex_digit d) :: nat) = (48 + d) mod 256"
      using True unfolding hex_digit_def by (simp only: if_True of_char_of)
    also have "\<dots> = 48 + d" using d by (intro mod_less) linarith
    finally show ?thesis using True by simp
  next
    case False
    have "(of_char (hex_digit d) :: nat) = (87 + d) mod 256"
      using False unfolding hex_digit_def by (simp only: if_False of_char_of)
    also have "\<dots> = 87 + d" using d by (intro mod_less) linarith
    finally show ?thesis using False by simp
  qed
qed

lemma str_nat_chars:
  "c \<in> set (str_nat n) \<Longrightarrow> 48 \<le> (of_char c :: nat) \<and> (of_char c :: nat) \<le> 57"
proof (induction n rule: str_nat.induct)
  case (1 n)
  have d: "48 \<le> (of_char (digit_char k) :: nat) \<and> (of_char (digit_char k) :: nat) \<le> 57"
    if "k < 10" for k
    using digit_char_code [OF that] that by linarith
  show ?case
  proof (cases "n < 10")
    case True
    with "1.prems" have "c = digit_char n"
      by (subst (asm) str_nat.simps) simp
    with d [OF True] show ?thesis by simp
  next
    case False
    with "1.prems" have "c \<in> set (str_nat (n div 10)) \<or> c = digit_char (n mod 10)"
      by (subst (asm) str_nat.simps) auto
    then show ?thesis
      using "1.IH" [OF False] d [of "n mod 10"] by auto
  qed
qed

lemma unpack_message_no_dot: "CHR ''.'' \<notin> set (unpack_message n)"
  using str_nat_chars [of "CHR ''.''" n] by (auto simp: unpack_message_def)

lemma exceeds_limit_no_dash: "CHR ''-'' \<notin> set (exceeds_limit a b)"
  using str_nat_chars [of "CHR ''-''" a] str_nat_chars [of "CHR ''-''" b]
  by (auto simp: exceeds_limit_def)

lemma hex_digit_no_dash: "d < 16 \<Longrightarrow> hex_digit d \<noteq> CHR ''-''"
proof
  assume d: "d < 16" and "hex_digit d = CHR ''-''"
  then have "(of_char (hex_digit d) :: nat) = 45" by simp
  with hex_digit_code [OF d] show False by (simp split: if_splits)
qed

lemma repr_char_no_dash: "c \<noteq> CHR ''-'' \<Longrightarrow> CHR ''-'' \<notin> set (repr_char q c)"
proof -
  assume c: "c \<noteq> CHR ''-''"
  have a: "(of_char c :: nat) div 16 < 16"
  proof -
    have "(of_char c :: nat) < 256"
      by (metis of_char_mod_256 mod_less_divisor zero_less_numeral)
    then show ?thesis by (intro less_mult_imp_div_less) simp
  qed
  have b: "(of_char c :: nat) mod 16 < 16" by simp
  show ?thesis
    using c hex_digit_no_dash [OF a] hex_digit_no_dash [OF b]
    by (auto simp: repr_char_def)
qed

lemma py_repr_no_dash: "CHR ''-'' \<notin> set s \<Longrightarrow> CHR ''-'' \<notin> set (py_repr s)"
proof -
  assume a: "CHR ''-'' \<notin> set s"
  have "CHR ''-'' \<notin> set (repr_char q c)" if "c \<in> set s" for q c
  proof (rule repr_char_no_dash)
    show "c \<noteq> CHR ''-''" using that a by blast
  qed
  then have "CHR ''-'' \<notin> set (concat (map (repr_char q) s))" for q
    by (simp add: image_iff)
  then show ?thesis
    by (simp add: py_repr_def Let_def)
qed

lemma invalid_literal_no_dash:
  assumes "is_ascii s" "CHR ''-'' \<notin> set s"
  shows "CHR ''-'' \<notin> set (invalid_literal ip s)"
proof -
  have "CHR ''-'' \<notin> set (take 200 (py_repr s))"
    using py_repr_no_dash [OF assms(2)] set_take_subset [of 200 "py_repr s"] by blast
  then show ?thesis
    using assms(1) by (simp add: invalid_literal_def repr_cut_def)
qed

lemma str_splitn_sub: "x \<in> set (str_splitn sep n s) \<Longrightarrow> set x \<subseteq> set s"
proof (induction sep n s arbitrary: x rule: str_splitn.induct)
  case (1 sep s)
  then show ?case by simp
next
  case (2 sep n)
  then show ?case by simp
next
  case (3 sep n c cs)
  show ?case
  proof (cases "c = sep")
    case True
    with "3.prems" have "x = [] \<or> x \<in> set (str_splitn sep n cs)" by auto
    then show ?thesis using "3.IH"(1) [OF True] by auto
  next
    case False
    show ?thesis
    proof (cases "str_splitn sep (Suc n) cs")
      case Nil
      with False "3.prems" show ?thesis by simp
    next
      case (Cons f fs)
      with False "3.prems" have "x = c # f \<or> x \<in> set fs" by auto
      then show ?thesis
        using "3.IH"(2) [OF False, of f] "3.IH"(2) [OF False, of x] Cons by auto
    qed
  qed
qed

lemma str_splitn_no_sep:
  "length s \<le> n \<Longrightarrow> x \<in> set (str_splitn sep n s) \<Longrightarrow> sep \<notin> set x"
proof (induction sep n s arbitrary: x rule: str_splitn.induct)
  case (1 sep s)
  then show ?case by simp
next
  case (2 sep n)
  then show ?case by simp
next
  case (3 sep n c cs)
  show ?case
  proof (cases "c = sep")
    case True
    with "3.prems" have "x = [] \<or> x \<in> set (str_splitn sep n cs)" by auto
    then show ?thesis using "3.IH"(1) [OF True] "3.prems"(1) by auto
  next
    case False
    have l: "length cs \<le> Suc n" using "3.prems"(1) by simp
    show ?thesis
    proof (cases "str_splitn sep (Suc n) cs")
      case Nil
      with False "3.prems" show ?thesis by simp
    next
      case (Cons f fs)
      with False "3.prems" have "x = c # f \<or> x \<in> set fs" by auto
      then show ?thesis
        using "3.IH"(2) [OF False l, of f] "3.IH"(2) [OF False l, of x] Cons False by auto
    qed
  qed
qed

lemma str_splitn_single: "sep \<notin> set s \<Longrightarrow> str_splitn sep n s = [s]"
  by (induction sep n s rule: str_splitn.induct) auto

lemma str_split_fields:
  assumes "x \<in> set (str_split sep s)"
  shows "set x \<subseteq> set s" "sep \<notin> set x"
  using assms str_splitn_sub [of x sep "length s" s] str_splitn_no_sep [of s "length s" x sep]
  by (auto simp: str_split_def)

lemma str_split_many: "1 < length (str_split sep s) \<Longrightarrow> sep \<in> set s"
  by (cases "sep \<in> set s") (simp_all add: str_split_def str_splitn_single)

lemma str_rsplit_sub: "x \<in> set (str_rsplit sep n s) \<Longrightarrow> set x \<subseteq> set s"
  using str_splitn_sub [of "rev x" sep n "rev s"] by (auto simp: str_rsplit_def)

lemma is_ascii_sub: "is_ascii s \<Longrightarrow> set x \<subseteq> set s \<Longrightarrow> is_ascii x"
  by (auto simp: is_ascii_def list_all_iff)

lemma endswith_dot: "str_endswith f ''.pth.tar'' \<Longrightarrow> CHR ''.'' \<in> set f"
proof -
  assume "str_endswith f ''.pth.tar''"
  then have "set ''.pth.tar'' \<subseteq> set f"
    unfolding str_endswith_def using set_drop_subset [of "length f - length ''.pth.tar''" f]
    by metis
  then show ?thesis by simp
qed

lemma py_int_error:
  "py_int ip s = Inl e \<Longrightarrow>
   e = ValueError (invalid_literal ip s)
   \<or> (\<exists>digits. e = ValueError (exceeds_limit (int_max_str_digits ip) digits))"
  by (auto simp: py_int_def Let_def split: option.splits if_splits)

lemma parse_all_length: "parse_all ip d fs = Inr cs \<Longrightarrow> length cs = length fs"
  by (induction fs arbitrary: cs) (auto split: sum.splits)

lemma parse_all_first_error:
  "f \<in> set fs \<Longrightarrow> parse_checkpoint ip d f = Inl e0 \<Longrightarrow>
   \<exists>g \<in> set fs. \<exists>e. parse_checkpoint ip d g = Inl e \<and> parse_all ip d fs = Inl e"
proof (induction fs)
  case Nil
  then show ?case by simp
next
  case (Cons a fs)
  show ?case
  proof (cases "parse_checkpoint ip d a")
    case (Inl e)
    then show ?thesis by auto
  next
    case (Inr c)
    with Cons.prems have "f \<in> set fs" by auto
    from Cons.IH [OF this Cons.prems(2)] obtain g e
      where "g \<in> set fs" "parse_checkpoint ip d g = Inl e" "parse_all ip d fs = Inl e" by blast
    with Inr show ?thesis by auto
  qed
qed

lemma build_catalog_few:
  "length (model_files_of names) < 2 \<Longrightarrow> \<exists>e. build_catalog ip d names = Inl e"
  by (auto simp: build_catalog_def Let_def split: sum.splits dest: parse_all_length)

lemma build_catalog_length:
  "build_catalog ip d names = Inr cs \<Longrightarrow> 1 < length cs"
  by (auto simp: build_catalog_def Let_def split: sum.splits if_splits)

lemma main_raises: "main env w = (Inl (UnboundLocalError ''args''), w)"
  by (simp add: main_def load_fast_def)

subsection \<open>The unbound local variable\<close>

text \<open>
  Claim C10. Every call of \<^verbatim>\<open>main\<close> reads the local variable \<^verbatim>\<open>args\<close> (line 28)
  before line 33 assigns it: it raises the unbound-local error at once, whatever the
  environment and the world, and leaves the world as it was (no directory listed, no
  inference started, no file written).
\<close>

theorem main_unbound_local:
  "main env w = (Inl (UnboundLocalError ''args''), w)"
  by (simp add: main_def load_fast_def)

subsection \<open>Too few checkpoints\<close>

text \<open>
  Claim C4. When fewer than two names of the listing of the model directory end in
  \<^verbatim>\<open>.pth.tar\<close>, the run ends in an error and the world is unchanged: no inference
  pass was started and no file was created or modified. This holds for the body of
  \<^verbatim>\<open>main\<close> from line 34 on, and for \<^verbatim>\<open>main\<close> itself.
\<close>

theorem too_few_checkpoints_abort:
  assumes "listdir w (model_dir args) = Inr names"
      and "length (model_files_of names) < 2"
  shows "(\<exists>e. main_body env args w = (Inl e, w)) \<and> (\<exists>e. main env w = (Inl e, w))"
proof -
  from build_catalog_few [OF assms(2)] obtain e
    where "build_catalog (interpreter env) (model_dir args) names = Inl e" by blast
  with assms(1) have "main_body env args w = (Inl e, w)"
    by (simp add: main_body_def compute_results_def)
  then show ?thesis
    using main_raises by blast
qed

theorem too_few_checkpoints_abort_witness:
  "main_body (scenario_env Succeeds) scenario_args (world_with [''vqa-A-80.pth.tar'', ''notes.txt''])
     = (Inl AssertionError, world_with [''vqa-A-80.pth.tar'', ''notes.txt''])"
proof -
  let ?w = "world_with [''vqa-A-80.pth.tar'', ''notes.txt'']"
  have l: "listdir ?w (model_dir scenario_args) = Inr [''vqa-A-80.pth.tar'', ''notes.txt'']"
    by (simp add: world_with_def scenario_args_def)
  have f: "model_files_of [''vqa-A-80.pth.tar'', ''notes.txt''] = [''vqa-A-80.pth.tar'']"
    by (simp add: model_files_of_def str_endswith_def)
  have p: "parse_checkpoint ip ''run'' ''vqa-A-80.pth.tar'' =
      Inr \<lparr>model_group_name = ''vqa'', model_name = ''A'', model_acc = 80,
           cp_path = ''run/vqa-A-80.pth.tar''\<rparr>" for ip
    by code_simp
  have c: "build_catalog ip (model_dir scenario_args) [''vqa-A-80.pth.tar'', ''notes.txt'']
      = Inl AssertionError" for ip
    by (simp add: build_catalog_def f p scenario_args_def)
  have "length (model_files_of [''vqa-A-80.pth.tar'', ''notes.txt'']) < 2"
    by (simp add: f)
  from too_few_checkpoints_abort [OF l this, of "scenario_env Succeeds"]
  obtain e where "main_body (scenario_env Succeeds) scenario_args ?w = (Inl e, ?w)"
    by blast
  moreover have "main_body (scenario_env Succeeds) scenario_args ?w = (Inl AssertionError, ?w)"
    by (simp add: main_body_def compute_results_def l c)
  ultimately show ?thesis by simp
qed

subsection \<open>Malformed checkpoint names\<close>

lemma parse_checkpoint_error:
  assumes "parse_checkpoint ip d g = Inl e"
  shows "(length (name_fields g) < 3 \<and> e = ValueError (unpack_message (length (name_fields g))))
       \<or> (3 \<le> length (name_fields g)
           \<and> (e = ValueError (invalid_literal ip (name_fields g ! 2))
               \<or> (\<exists>digits. e = ValueError (exceeds_limit (int_max_str_digits ip) digits))))"
proof -
  obtain base ext where r: "str_rsplit CHR ''.'' 2 g = base # ext"
    using str_rsplit_nonempty [of "CHR ''.''" 2 g] by (cases "str_rsplit CHR ''.'' 2 g") auto
  then have n: "name_fields g = str_split CHR ''-'' base"
    by (simp add: name_fields_def)
  show ?thesis
  proof (cases "length (name_fields g) < 3")
    case True
    then have "\<not> (\<exists>a b c rest. str_split CHR ''-'' base = a # b # c # rest)"
      unfolding n by auto
    then have "parse_checkpoint ip d g
        = Inl (ValueError (unpack_message (length (str_split CHR ''-'' base))))"
      unfolding parse_checkpoint_def r by (auto split: list.splits)
    with assms True n show ?thesis by simp
  next
    case False
    then obtain a b c rest where f: "str_split CHR ''-'' base = a # b # c # rest"
      unfolding n by (cases "str_split CHR ''-'' base"; cases "tl (str_split CHR ''-'' base)";
        cases "tl (tl (str_split CHR ''-'' base))") auto
    with assms r obtain "py_int ip c = Inl e"
      by (auto simp: parse_checkpoint_def split: sum.splits)
    from py_int_error [OF this] f n False show ?thesis by auto
  qed
qed

lemma parse_error_not_name:
  assumes "str_endswith g ''.pth.tar''" "is_ascii g" "parse_checkpoint ip d g = Inl (ValueError msg)"
  shows "\<not> str_contains msg g"
proof
  assume "str_contains msg g"
  then have sub: "set g \<subseteq> set msg" by (rule str_contains_set)
  from parse_checkpoint_error [OF assms(3)]
  consider "msg = unpack_message (length (name_fields g))"
    | "3 \<le> length (name_fields g)" "msg = invalid_literal ip (name_fields g ! 2)"
    | digits where "3 \<le> length (name_fields g)" "msg = exceeds_limit (int_max_str_digits ip) digits"
    by auto
  then show False
  proof cases
    case 1
    with sub endswith_dot [OF assms(1)] unpack_message_no_dot show False by blast
  next
    case 2
    let ?base = "hd (str_rsplit CHR ''.'' 2 g)"
    have b: "set ?base \<subseteq> set g"
      using str_rsplit_nonempty [of "CHR ''.''" 2 g]
      by (intro str_rsplit_sub [of _ "CHR ''.''" 2]) simp
    have "1 < length (str_split CHR ''-'' ?base)" using 2(1) by (simp add: name_fields_def)
    then have dash: "CHR ''-'' \<in> set g" using str_split_many b by blast
    have m: "name_fields g ! 2 \<in> set (str_split CHR ''-'' ?base)"
      using 2(1) by (simp add: name_fields_def)
    from str_split_fields [OF m] b have "is_ascii (name_fields g ! 2)" "CHR ''-'' \<notin> set (name_fields g ! 2)"
      using is_ascii_sub [OF assms(2)] by auto
    from invalid_literal_no_dash [OF this] 2(2) sub dash show False by blast
  next
    case 3
    let ?base = "hd (str_rsplit CHR ''.'' 2 g)"
    have b: "set ?base \<subseteq> set g"
      using str_rsplit_nonempty [of "CHR ''.''" 2 g]
      by (intro str_rsplit_sub [of _ "CHR ''.''" 2]) simp
    have "1 < length (str_split CHR ''-'' ?base)" using 3(1) by (simp add: name_fields_def)
    then have dash: "CHR ''-'' \<in> set g" using str_split_many b by blast
    with exceeds_limit_no_dash 3(2) sub show False by blast
  qed
qed

lemma malformed_parse:
  assumes "length (name_fields f) < 3 \<or> (\<exists>e. py_int ip (name_fields f ! 2) = Inl e)"
  shows "\<exists>e. parse_checkpoint ip d f = Inl e"
proof -
  obtain base ext where r: "str_rsplit CHR ''.'' 2 f = base # ext"
    using str_rsplit_nonempty [of "CHR ''.''" 2 f] by (cases "str_rsplit CHR ''.'' 2 f") auto
  then have n: "name_fields f = str_split CHR ''-'' base"
    by (simp add: name_fields_def)
  show ?thesis
    using assms unfolding n parse_checkpoint_def r
    by (auto split: list.splits sum.splits)
qed

lemma parse_all_stops:
  "f \<in> set fs \<Longrightarrow> parse_checkpoint ip d f = Inl e0 \<Longrightarrow>
   \<exists>pre g post e. fs = pre @ g # post
      \<and> (\<forall>h\<in>set pre. \<exists>c. parse_checkpoint ip d h = Inr c)
      \<and> parse_checkpoint ip d g = Inl e \<and> parse_all ip d fs = Inl e"
proof (induction fs)
  case Nil
  then show ?case by simp
next
  case (Cons a fs)
  show ?case
  proof (cases "parse_checkpoint ip d a")
    case (Inl e)
    then have "a # fs = [] @ a # fs \<and> (\<forall>h\<in>set []. \<exists>c. parse_checkpoint ip d h = Inr c)
        \<and> parse_checkpoint ip d a = Inl e \<and> parse_all ip d (a # fs) = Inl e"
      by simp
    then show ?thesis by blast
  next
    case (Inr c)
    with Cons.prems have "f \<in> set fs" by auto
    from Cons.IH [OF this Cons.prems(2)] obtain pre g post e
      where "fs = pre @ g # post" "\<forall>h\<in>set pre. \<exists>c. parse_checkpoint ip d h = Inr c"
        "parse_checkpoint ip d g = Inl e" "parse_all ip d fs = Inl e" by blast
    with Inr have "a # fs = (a # pre) @ g # post
        \<and> (\<forall>h\<in>set (a # pre). \<exists>c. parse_checkpoint ip d h = Inr c)
        \<and> parse_checkpoint ip d g = Inl e \<and> parse_all ip d (a # fs) = Inl e"
      by simp
    then show ?thesis by blast
  qed
qed

text \<open>
  Claim C5, as the code has it. Let a matching name have fewer than three
  dash-separated fields in its base name, or a third field that \<^verbatim>\<open>int\<close> rejects. Then
  the run ends in an error with the world unchanged: no inference pass was started and
  nothing was written. In the catalog loop (lines 36 to 42) the error is the
  \<^verbatim>\<open>ValueError\<close> of the interpreter for the first matching name \<open>g\<close> of the listing
  that does not parse, every matching name before it having parsed. Its message is the
  text of the unpacking (the number of fields found) or the text of \<^verbatim>\<open>int\<close> (the
  \<^verbatim>\<open>repr\<close> of the accuracy field, or the number of digits over the limit); the loop
  adds nothing to it, and for a name of ASCII characters the name does not occur in it.
  The function \<^verbatim>\<open>main\<close> as a whole ends in an error with the world unchanged as well.
\<close>

theorem malformed_name_aborts:
  assumes "listdir w (model_dir args) = Inr names"
      and "f \<in> set (model_files_of names)"
      and "length (name_fields f) < 3
           \<or> (\<exists>e. py_int (interpreter env) (name_fields f ! 2) = Inl e)"
  shows "(\<exists>pre g post msg.
            model_files_of names = pre @ g # post
          \<and> (\<forall>h\<in>set pre. \<exists>c. parse_checkpoint (interpreter env) (model_dir args) h = Inr c)
          \<and> parse_checkpoint (interpreter env) (model_dir args) g = Inl (ValueError msg)
          \<and> main_body env args w = (Inl (ValueError msg), w)
          \<and> (msg = unpack_message (length (name_fields g))
               \<or> msg = invalid_literal (interpreter env) (name_fields g ! 2)
               \<or> (\<exists>digits. msg = exceeds_limit (int_max_str_digits (interpreter env)) digits))
          \<and> (is_ascii g \<longrightarrow> \<not> str_contains msg g))
       \<and> (\<exists>e. main env w = (Inl e, w))"
proof -
  from malformed_parse [OF assms(3)] obtain e0
    where "parse_checkpoint (interpreter env) (model_dir args) f = Inl e0" by blast
  from parse_all_stops [OF assms(2) this] obtain pre g post e
    where s: "model_files_of names = pre @ g # post"
      and p: "\<forall>h\<in>set pre. \<exists>c. parse_checkpoint (interpreter env) (model_dir args) h = Inr c"
      and g: "parse_checkpoint (interpreter env) (model_dir args) g = Inl e"
      and a: "parse_all (interpreter env) (model_dir args) (model_files_of names) = Inl e" by blast
  from parse_checkpoint_error [OF g] obtain msg where m: "e = ValueError msg"
    and shape: "msg = unpack_message (length (name_fields g))
               \<or> msg = invalid_literal (interpreter env) (name_fields g ! 2)
               \<or> (\<exists>digits. msg = exceeds_limit (int_max_str_digits (interpreter env)) digits)"
    by auto
  have "g \<in> set (model_files_of names)" using s by simp
  then have suffix: "str_endswith g ''.pth.tar''" by (simp add: model_files_of_def)
  have n: "is_ascii g \<longrightarrow> \<not> str_contains msg g"
    using parse_error_not_name [OF suffix _ g [unfolded m]] by blast
  have b: "main_body env args w = (Inl (ValueError msg), w)"
    using a assms(1) m by (simp add: main_body_def compute_results_def build_catalog_def)
  from s p g m b shape n have "\<exists>pre g post msg.
            model_files_of names = pre @ g # post
          \<and> (\<forall>h\<in>set pre. \<exists>c. parse_checkpoint (interpreter env) (model_dir args) h = Inr c)
          \<and> parse_checkpoint (interpreter env) (model_dir args) g = Inl (ValueError msg)
          \<and> main_body env args w = (Inl (ValueError msg), w)
          \<and> (msg = unpack_message (length (name_fields g))
               \<or> msg = invalid_literal (interpreter env) (name_fields g ! 2)
               \<or> (\<exists>digits. msg = exceeds_limit (int_max_str_digits (interpreter env)) digits))
          \<and> (is_ascii g \<longrightarrow> \<not> str_contains msg g)"
    by blast
  then show ?thesis
    using main_raises by blast
qed


text \<open>
  The claim as stated fails. For the listing below the catalog loop raises for the file
  \<^verbatim>\<open>model.pth.tar\<close>, and the message is the text of the interpreter about unpacking,
  in which the file name does not occur. The function \<^verbatim>\<open>main\<close>, called on the same
  listing, raises the error of the unbound variable \<^verbatim>\<open>args\<close> before the directory
  is read; that error does not name the file either.
\<close>

theorem malformed_name_message_counterexample:
  "main_body (scenario_env Succeeds) scenario_args
       (world_with [''model.pth.tar'', ''vqa-A-80.pth.tar''])
     = (Inl (ValueError ''not enough values to unpack (expected at least 3, got 1)''),
        world_with [''model.pth.tar'', ''vqa-A-80.pth.tar''])
   \<and> \<not> str_contains ''not enough values to unpack (expected at least 3, got 1)''
         ''model.pth.tar''
   \<and> main (scenario_env Succeeds) (world_with [''model.pth.tar'', ''vqa-A-80.pth.tar''])
     = (Inl (UnboundLocalError ''args''), world_with [''model.pth.tar'', ''vqa-A-80.pth.tar''])
   \<and> \<not> str_contains ''args'' ''model.pth.tar''"
proof -
  let ?w = "world_with [''model.pth.tar'', ''vqa-A-80.pth.tar'']"
  have l: "listdir ?w (model_dir scenario_args) = Inr [''model.pth.tar'', ''vqa-A-80.pth.tar'']"
    by (simp add: world_with_def scenario_args_def)
  have f: "model_files_of [''model.pth.tar'', ''vqa-A-80.pth.tar'']
      = [''model.pth.tar'', ''vqa-A-80.pth.tar'']"
    by (simp add: model_files_of_def str_endswith_def)
  have p: "parse_checkpoint ip ''run'' ''model.pth.tar'' =
      Inl (ValueError ''not enough values to unpack (expected at least 3, got 1)'')" for ip
    by code_simp
  have c: "build_catalog ip (model_dir scenario_args) [''model.pth.tar'', ''vqa-A-80.pth.tar'']
      = Inl (ValueError ''not enough values to unpack (expected at least 3, got 1)'')" for ip
    by (simp add: build_catalog_def f p scenario_args_def)
  have m: "main_body (scenario_env Succeeds) scenario_args ?w
      = (Inl (ValueError ''not enough values to unpack (expected at least 3, got 1)''), ?w)"
    by (simp add: main_body_def compute_results_def l c)
  have n: "\<not> str_contains ''not enough values to unpack (expected at least 3, got 1)''
         ''model.pth.tar''"
    by code_simp
  have a: "\<not> str_contains ''args'' ''model.pth.tar''"
    by code_simp
  from m n a main_raises [of "scenario_env Succeeds" ?w] show ?thesis by blast
qed

theorem malformed_name_aborts_witness:
  "main_body (scenario_env Succeeds) scenario_args
       (world_with [''vqa-A-80.pth.tar'', ''vqa-B-6x.pth.tar''])
     = (Inl (ValueError (''invalid literal for int() with base 10: '' @ [CHR 0x27] @ ''6x''
                          @ [CHR 0x27])),
        world_with [''vqa-A-80.pth.tar'', ''vqa-B-6x.pth.tar''])
   \<and> \<not> str_contains (''invalid literal for int() with base 10: '' @ [CHR 0x27] @ ''6x''
                          @ [CHR 0x27]) ''vqa-B-6x.pth.tar''"
proof -
  let ?names = "[''vqa-A-80.pth.tar'', ''vqa-B-6x.pth.tar'']"
  let ?w = "world_with ?names"
  let ?msg = "''invalid literal for int() with base 10: '' @ [CHR 0x27] @ ''6x'' @ [CHR 0x27]"
  have l: "listdir ?w (model_dir scenario_args) = Inr ?names"
    by (simp add: world_with_def scenario_args_def)
  have f: "model_files_of ?names = ?names"
    by (simp add: model_files_of_def str_endswith_def)
  have m: "''vqa-B-6x.pth.tar'' \<in> set (model_files_of ?names)"
    by (simp add: f)
  have i: "py_int ip (name_fields ''vqa-B-6x.pth.tar'' ! 2) = Inl (ValueError ?msg)" for ip
    by code_simp
  have h: "length (name_fields ''vqa-B-6x.pth.tar'') < 3
      \<or> (\<exists>e. py_int (interpreter (scenario_env Succeeds)) (name_fields ''vqa-B-6x.pth.tar'' ! 2) = Inl e)"
    using i by blast
  have pa: "parse_checkpoint ip ''run'' ''vqa-A-80.pth.tar'' =
      Inr \<lparr>model_group_name = ''vqa'', model_name = ''A'', model_acc = 80,
           cp_path = ''run/vqa-A-80.pth.tar''\<rparr>" for ip
    by code_simp
  have pb: "parse_checkpoint ip ''run'' ''vqa-B-6x.pth.tar'' = Inl (ValueError ?msg)" for ip
    by code_simp
  have c: "build_catalog ip (model_dir scenario_args) ?names = Inl (ValueError ?msg)" for ip
    unfolding build_catalog_def f by (simp add: pa pb scenario_args_def)
  have r: "main_body (scenario_env Succeeds) scenario_args ?w = (Inl (ValueError ?msg), ?w)"
    by (simp add: main_body_def compute_results_def l c)
  have d: "model_dir scenario_args = ''run''" by (simp add: scenario_args_def)
  have asc: "is_ascii ''vqa-B-6x.pth.tar''" by code_simp
  from malformed_name_aborts [OF l m h]
  obtain pre g post msg where s: "model_files_of ?names = pre @ g # post"
    and g: "parse_checkpoint (interpreter (scenario_env Succeeds)) (model_dir scenario_args) g
            = Inl (ValueError msg)"
    and b: "main_body (scenario_env Succeeds) scenario_args ?w = (Inl (ValueError msg), ?w)"
    and n: "is_ascii g \<longrightarrow> \<not> str_contains msg g"
    by blast
  from b r have e: "msg = ?msg" by simp
  from s f have "g \<in> set ?names" by (metis in_set_conv_decomp)
  with g pa d have "g = ''vqa-B-6x.pth.tar''" by auto
  with n asc e have "\<not> str_contains ?msg ''vqa-B-6x.pth.tar''" by simp
  with r show ?thesis by simp
qed

subsection \<open>The scenario of the specification\<close>

text \<open>
  The scenario, run through lines 34 to 102 with \<^verbatim>\<open>args\<close> bound to the parsed command
  line, the scores taken as the exact decimals: the catalog is A then B, the confidence
  sums of the one sample are 0.7, 1.0, 0.3, its tally is no with weight 80 then yes with
  weight 60, and both result lists answer no for question 1.
\<close>

lemma scenario_catalog:
  "build_catalog ip ''run'' [''vqa-A-80.pth.tar'', ''vqa-B-60.pth.tar'']
     = Inr [checkpoint_A, checkpoint_B]"
  by code_simp

lemma scenario_predict:
  "predict_all (scenario_env oc) 128 scenario_dataset [checkpoint_A, checkpoint_B]
       (initial_buffers scenario_dataset) []
     = (Inr \<lparr>conf_buff = [[7 / 10, 1, 3 / 10]],
             vote_buff = [[(''no'', 80), (''yes'', 60)]], start = 1\<rparr>,
        [''run/vqa-A-80.pth.tar'', ''run/vqa-B-60.pth.tar''])"
  by code_simp

lemma scenario_finalize:
  "finalize scenario_dataset
       \<lparr>conf_buff = [[7 / 10, 1, 3 / 10 :: rat]],
        vote_buff = [[(''no'', 80), (''yes'', 60)]], start = n\<rparr>
     = Inr ([(1, ''no'')], [(1, ''no'')])"
proof -
  have "conf_result_of scenario_dataset [[7 / 10, 1, 3 / 10 :: rat]] = Inr [(1, ''no'')]"
    by code_simp
  moreover have "vote_result_of scenario_dataset [[(''no'', 80), (''yes'', 60)]]
      = Inr [(1, ''no'')]"
    by code_simp
  ultimately show ?thesis
    by (simp add: finalize_def)
qed

lemma scenario_paths:
  "path_join ''run'' ''result-conf.json'' = ''run/result-conf.json''"
  "path_join ''run'' ''result-vote.json'' = ''run/result-vote.json''"
  by (simp_all add: path_join_def)

lemma scenario_results:
  "compute_results (scenario_env oc) scenario_args scenario_world
     = (Inr ([(1, ''no'')], [(1, ''no'')]),
        [''run/vqa-A-80.pth.tar'', ''run/vqa-B-60.pth.tar''])"
proof -
  have l: "listdir scenario_world ''run'' = Inr [''vqa-A-80.pth.tar'', ''vqa-B-60.pth.tar'']"
    by (simp add: scenario_world_def world_with_def)
  have d: "vqa_dataset (scenario_env oc) g = scenario_dataset" for g
    by (simp add: scenario_env_def)
  have s: "started scenario_world = []"
    by (simp add: scenario_world_def world_with_def)
  have a: "model_dir scenario_args = ''run''" "bs scenario_args = 128"
    by (simp_all add: scenario_args_def)
  have f: "finalize scenario_dataset
       \<lparr>conf_buff = [[7 / 10, 1, 3 / 10 :: rat]],
        vote_buff = [[(''no'', 80), (''yes'', 60)]], start = Suc 0\<rparr>
     = Inr ([(1, ''no'')], [(1, ''no'')])"
    by (rule scenario_finalize)
  have p: "predict_all (scenario_env oc) 128 scenario_dataset [checkpoint_A, checkpoint_B]
       (initial_buffers scenario_dataset) []
     = (Inr \<lparr>conf_buff = [[7 / 10, 1, 3 / 10]],
             vote_buff = [[(''no'', 80), (''yes'', 60)]], start = Suc 0\<rparr>,
        [''run/vqa-A-80.pth.tar'', ''run/vqa-B-60.pth.tar''])"
    using scenario_predict [of oc] by simp
  show ?thesis
    by (simp add: compute_results_def Let_def a l scenario_catalog d s p f del: predict_all.simps)
qed

lemma scenario_body_result:
  "main_body (scenario_env Succeeds) scenario_args scenario_world
     = (Inr (),
        scenario_world
          \<lparr>started := [''run/vqa-A-80.pth.tar'', ''run/vqa-B-60.pth.tar''],
           files := [''run/result-conf.json'' \<mapsto> json_dumps_ascii [(1, ''no'')],
                     ''run/result-vote.json'' \<mapsto> json_dumps_ascii [(1, ''no'')]]\<rparr>)"
proof -
  have w: "write_results (scenario_env Succeeds) ''run'' [(1, ''no'')] [(1, ''no'')] Map.empty
      = (Inr (), [''run/result-conf.json'' \<mapsto> json_dumps_ascii [(1, ''no'')],
                  ''run/result-vote.json'' \<mapsto> json_dumps_ascii [(1, ''no'')]])"
    by (simp add: write_results_def scenario_paths dump_file_def scenario_env_def)
  have s: "files scenario_world = Map.empty" "model_dir scenario_args = ''run''"
    by (simp_all add: scenario_world_def world_with_def scenario_args_def)
  show ?thesis
    by (simp add: main_body_def scenario_results s w)
qed

text \<open>
  Claim C2. The claim describes what the aggregation yields on the scenario, and lines
  34 to 102 compute exactly that (the lemmas above). The program does not get there:
  \<^verbatim>\<open>main\<close>, the only entry point, called on the scenario, raises the error of the
  unbound variable \<^verbatim>\<open>args\<close> at line 28 and returns the world as it was, with no
  inference pass started and no file written. So no confidence sum, tally or answer is
  produced.
\<close>

theorem scenario_run_aborts:
  "main (scenario_env Succeeds) scenario_world
     = (Inl (UnboundLocalError ''args''), scenario_world)
   \<and> started scenario_world = []
   \<and> files scenario_world = Map.empty"
  by (simp add: main_raises scenario_world_def world_with_def)

subsection \<open>Writing the results\<close>






end
